theory Spec2Isabelle
  imports Main "HOL-Library.Char_ord" "HOL-Library.List_Lexorder"
begin

section \<open>The Prepr connector: data model\<close>

text \<open>
  The connector (\<^verbatim>\<open>src/prepr/src/index.ts\<close>) pages through a GraphQL endpoint,
  flattens every article's content blocks into one HTML string, hands the resulting nodes
  to the host's \<^verbatim>\<open>model.create\<close> and records a cursor in the host's cache.

  The records below follow the interface \<^verbatim>\<open>PreprArticlesRes\<close> (lines 8-46). A field
  \<^verbatim>\<open>_x\<close> of the source is written with the record's name in front, since an Isabelle
  name cannot start with an underscore and field names are global.
\<close>

record author =
  author_changed_on :: string
  author_id :: string
  author_bio :: string
  author_full_name :: string

record category =
  category_changed_on :: string
  category_id :: string
  category_slug :: string
  category_title :: string

record asset =
  asset_id :: string
  asset_type :: string
  asset_url :: string

text \<open>The enumeration \<^verbatim>\<open>'JS' | 'TS' | 'RB'\<close> of line 36 and the text of each value.\<close>

datatype language = JS | TS | RB

fun language_text :: "language \<Rightarrow> string" where
  "language_text JS = ''JS''"
| "language_text TS = ''TS''"
| "language_text RB = ''RB''"

text \<open>
  A content block is one of the shapes the query asks for (lines 83-100): an object with
  \<^verbatim>\<open>items\<close>, an object with \<^verbatim>\<open>code\<close> and \<^verbatim>\<open>language\<close>, an object with
  \<^verbatim>\<open>html\<close>. \<open>Unrecognized\<close> stands for an object that has none of the three fields
  (the declared third variant, \<^verbatim>\<open>{_id, format}\<close>, is one), which is what the last
  \<^verbatim>\<open>else\<close> of the body reduction receives.
\<close>

datatype content =
    Assets "asset list"
  | CodeBlock string string language
  | Text string string
  | Unrecognized string

record article =
  article_changed_on :: string
  article_id :: string
  article_slug :: string
  article_authors :: "author list"
  article_categories :: "category list"
  article_content :: "content list"
  article_title :: string

text \<open>The objects handed to \<^verbatim>\<open>model.create\<close> (lines 144-176).\<close>

record node_author =
  na_author_id :: string
  na_bio :: string
  na_name :: string

record node_category =
  nc_category_id :: string
  nc_slug :: string
  nc_title :: string

record node =
  node_authors :: "node_author list"
  node_body :: string
  node_categories :: "node_category list"
  node_id :: string
  node_slug :: string
  node_title :: string
  node_updated :: string

section \<open>Strings and numbers of the host language\<close>

text \<open>
  \<^verbatim>\<open>String.prototype.toLowerCase\<close> on the ASCII letters, which is all a language tag
  holds.
\<close>

definition toLowerCase :: "string \<Rightarrow> string" where
  "toLowerCase s =
     map (\<lambda>c. if CHR ''A'' \<le> c \<and> c \<le> CHR ''Z'' then char_of (of_char c + (32::nat)) else c) s"

text \<open>
  A number inside a template literal is written in decimal. Lengths and indices are
  natural numbers; \<^verbatim>\<open>line\<close> and \<^verbatim>\<open>column\<close> are integers.
\<close>

fun show_nat :: "nat \<Rightarrow> string" where
  "show_nat n =
     (if n < 10 then [''0123456789'' ! n]
      else show_nat (n div 10) @ [''0123456789'' ! (n mod 10)])"

declare show_nat.simps [simp del]

definition show_int :: "int \<Rightarrow> string" where
  "show_int i = (if i < 0 then ''-'' @ show_nat (nat (- i)) else show_nat (nat i))"

section \<open>The Content Flattener and the Article Transformer\<close>

text \<open>
  The inner reduction of lines 154-156: one \<^verbatim>\<open><img>\<close> tag per asset, starting from the
  empty string.
\<close>

definition assets_body :: "asset list \<Rightarrow> string" where
  \<open>assets_body its =
     foldl (\<lambda>contentBody contentItem. contentBody @ ''<img href="'' @ asset_url contentItem @ ''"/>'')
       '''' its\<close>

text \<open>The callback of the outer reduction, lines 152-163, with its four branches in order.\<close>

fun body_step :: "string \<Rightarrow> content \<Rightarrow> string" where
  "body_step body (Assets its) = assets_body its"
| "body_step body (CodeBlock i code lang) =
     body @ ''<pre lang='' @ toLowerCase (language_text lang) @ ''><code>'' @ code @ ''</code></pre>''"
| "body_step body (Text i html) = body @ html"
| "body_step body (Unrecognized i) = body"

definition flatten_content :: "content list \<Rightarrow> string" where
  "flatten_content cs = foldl body_step '''' cs"

text \<open>The callback of \<^verbatim>\<open>items.map\<close>, lines 143-177.\<close>

definition article_to_node :: "article \<Rightarrow> node" where
  "article_to_node a =
     \<lparr> node_authors =
         map (\<lambda>au. \<lparr> na_author_id = author_id au, na_bio = author_bio au,
                      na_name = author_full_name au \<rparr>) (article_authors a),
       node_body = flatten_content (article_content a),
       node_categories =
         map (\<lambda>c. \<lparr> nc_category_id = category_id c, nc_slug = category_slug c,
                     nc_title = category_title c \<rparr>) (article_categories a),
       node_id = article_id a,
       node_slug = article_slug a,
       node_title = article_title a,
       node_updated = article_changed_on a \<rparr>"

section \<open>The environment: GraphQL endpoint, host model, cache and clock\<close>

text \<open>
  A request is the body posted at lines 56-116. The query text is fixed, so a request is
  told apart by the token appended to the URL and by its two variables; \<open>None\<close> is
  \<^verbatim>\<open>null\<close>.
\<close>

record request =
  req_token :: string
  req_skip :: nat
  req_changed_on_gte :: "string option"

record location =
  loc_column :: int
  loc_line :: int

record gql_error =
  err_locations :: "location list"
  err_message :: string

text \<open>
  What \<^verbatim>\<open>.json()\<close> resolves to (lines 116-127): a page of articles with the reported
  total, or a list of errors. \<open>Rejected\<close> is the promise being rejected (a transport
  failure), which the source does not catch.
\<close>

datatype response =
    Data "article list" nat
  | Errors "gql_error list"
  | Rejected

text \<open>
  Every request of one run has a different \<^verbatim>\<open>skip\<close>, so an endpoint that answers by
  request describes every sequence of responses a run can receive.
\<close>

type_synonym server = "request \<Rightarrow> response"

datatype error = Error string | TypeError | TransportError

datatype cache_op = CacheGet string | CacheSet string string

text \<open>
  The host as the connector sees it: the requests sent so far, the calls made to
  \<^verbatim>\<open>model.create\<close> and \<^verbatim>\<open>model.delete\<close>, the cache with the calls made to it, and the
  values \<^verbatim>\<open>Date.now()\<close> (milliseconds since the epoch) and \<^verbatim>\<open>getTimezoneOffset()\<close>
  (minutes that local time is behind UTC) return when the cursor is written. The clock is
  the host's wall clock: nothing makes one reading later than an earlier one. The host's
  own functions are taken to return normally.
\<close>

record world =
  requests :: "request list"
  creates :: "node list list"
  deletes :: "string list"
  cache :: "string \<rightharpoonup> string"
  cache_ops :: "cache_op list"
  now :: nat
  timezoneOffset :: int

text \<open>The accumulator \<^verbatim>\<open>allArticles.data.Articles\<close> of lines 47-54.\<close>

record articles =
  items :: "article list"
  total :: nat

definition allArticles_init :: articles where
  "allArticles_init = \<lparr> items = [], total = 0 \<rparr>"

section \<open>The GraphQL Fetcher\<close>

text \<open>
  The reduction of lines 129-131. Reading \<^verbatim>\<open>locations[0].line\<close> of an error without
  locations raises a \<^verbatim>\<open>TypeError\<close> inside the callback, before any \<^verbatim>\<open>Error\<close> is built.
\<close>

fun errors_reduce :: "string \<Rightarrow> nat \<Rightarrow> gql_error list \<Rightarrow> error + string" where
  "errors_reduce currentString currentErrorIndex [] = Inr currentString"
| "errors_reduce currentString currentErrorIndex (currentError # rest) =
     (case err_locations currentError of
        [] \<Rightarrow> Inl TypeError
      | l # _ \<Rightarrow>
          errors_reduce
            (currentString @ ''GraphQlError '' @ show_nat (currentErrorIndex + 1) @ '': '' @
             err_message currentError @ '' at '' @ show_int (loc_line l) @ '':'' @
             show_int (loc_column l) @ ''\<newline>'')
            (currentErrorIndex + 1) rest)"

definition errors_message :: "gql_error list \<Rightarrow> error + string" where
  "errors_message es =
     errors_reduce (''Received '' @ show_nat (length es) @ '' error(s) from GraphQL:\<newline>'') 0 es"

text \<open>Lines 133-136: append the page, and take the total while none is recorded.\<close>

definition add_page :: "articles \<Rightarrow> article list \<Rightarrow> nat \<Rightarrow> articles" where
  "add_page allArticles page_items page_total =
     (let a = allArticles\<lparr> items := items allArticles @ page_items \<rparr>
      in if total a = 0 then a\<lparr> total := page_total \<rparr> else a)"

definition mk_request :: "string \<Rightarrow> nat \<Rightarrow> string option \<Rightarrow> request" where
  "mk_request apiToken skip updatedGte =
     \<lparr> req_token = apiToken, req_skip = skip, req_changed_on_gte = updatedGte \<rparr>"

definition send :: "request \<Rightarrow> world \<Rightarrow> world" where
  "send r w = w\<lparr> requests := requests w @ [r] \<rparr>"

text \<open>
  \<^verbatim>\<open>fetchArticles\<close>, lines 55-141. The recursion ends only when the accumulated list
  reaches the recorded total, so the function is partial: \<open>None\<close> is a run that never
  returns. \<open>Inl\<close> is the exception thrown.
\<close>

partial_function (option) fetchArticles ::
  "server \<Rightarrow> string \<Rightarrow> string option \<Rightarrow> nat \<Rightarrow> articles \<Rightarrow> world \<Rightarrow> ((error + articles) \<times> world) option"
where
  "fetchArticles srv apiToken updatedGte skip allArticles w =
     (let w1 = send (mk_request apiToken skip updatedGte) w in
      case srv (mk_request apiToken skip updatedGte) of
        Rejected \<Rightarrow> Some (Inl TransportError, w1)
      | Errors es \<Rightarrow>
          (case errors_message es of
             Inl e \<Rightarrow> Some (Inl e, w1)
           | Inr msg \<Rightarrow> Some (Inl (Error msg), w1))
      | Data page_items page_total \<Rightarrow>
          (let a = add_page allArticles page_items page_total
           in if total a > length (items a)
              then fetchArticles srv apiToken updatedGte (skip + 100) a w1
              else Some (Inr a, w1)))"

section \<open>The Sync Orchestrator\<close>

text \<open>
  \<^verbatim>\<open>formatISO\<close> is the function of the library date-fns imported at line 2; it is not
  part of the connector's source. It is given here with its default options:
  \<^verbatim>\<open>yyyy-MM-ddTHH:mm:ss\<close> in the host's local time, every field padded by
  \<^verbatim>\<open>addLeadingZeros\<close> and the milliseconds dropped, followed by \<^verbatim>\<open>Z\<close> when
  \<^verbatim>\<open>getTimezoneOffset()\<close> is 0 and by the sign, hours and minutes of the offset otherwise
  (\<^verbatim>\<open>+\<close> for a zone ahead of UTC). Local time is the clock reading less the offset.
\<close>

definition addLeadingZeros :: "int \<Rightarrow> nat \<Rightarrow> string" where
  "addLeadingZeros n targetLength =
     (if n < 0 then ''-'' else []) @
     replicate (targetLength - length (show_nat (nat \<bar>n\<bar>))) CHR ''0'' @ show_nat (nat \<bar>n\<bar>)"

text \<open>
  The local date, as \<^verbatim>\<open>getFullYear\<close>, \<^verbatim>\<open>getMonth\<close> and \<^verbatim>\<open>getDate\<close> give it (the
  proleptic Gregorian calendar). Days are counted in eras of 400 years that start on 1
  March of the year 0; inside an era the years start in March, so that the leap day is the
  last day of its year, and the year that starts in March of year \<open>yoe\<close> is long when
  year \<open>yoe + 1\<close> is a leap year. \<open>year_from\<close> and \<open>month_from\<close> step through the
  years of the era and the months of the year; February takes what is left.
\<close>

definition leap_year :: "nat \<Rightarrow> bool" where
  "leap_year y \<longleftrightarrow> y mod 4 = 0 \<and> (y mod 100 \<noteq> 0 \<or> y mod 400 = 0)"

definition year_length :: "nat \<Rightarrow> nat" where
  "year_length yoe = (if leap_year (yoe + 1) then 366 else 365)"

function year_from :: "nat \<Rightarrow> nat \<Rightarrow> nat \<times> nat" where
  "year_from yoe d =
     (if year_length yoe \<le> d then year_from (yoe + 1) (d - year_length yoe) else (yoe, d))"
  by pat_completeness auto
termination
  by (relation "measure snd") (auto simp: year_length_def)

definition month_length :: "nat \<Rightarrow> nat" where
  "month_length mp = [31, 30, 31, 30, 31, 31, 30, 31, 30, 31, 31] ! mp"

function month_from :: "nat \<Rightarrow> nat \<Rightarrow> nat \<times> nat" where
  "month_from mp d =
     (if mp < 11 \<and> month_length mp \<le> d then month_from (mp + 1) (d - month_length mp)
      else (mp, d))"
  by pat_completeness auto
termination
  by (relation "measure (\<lambda>(mp, d). 11 - mp)") auto

declare year_from.simps [simp del] month_from.simps [simp del]

definition civil_from_days :: "int \<Rightarrow> int \<times> nat \<times> nat" where
  "civil_from_days days =
     (let era = (days + 719468) div 146097;
          doe = nat ((days + 719468) mod 146097);
          (yoe, doy) = year_from 0 doe;
          (mp, md) = month_from 0 doy;
          m = (if mp < 10 then mp + 3 else mp - 9)
      in (int yoe + era * 400 + (if m \<le> 2 then 1 else 0), m, md + 1))"

definition tzOffset :: "int \<Rightarrow> string" where
  "tzOffset offset =
     (if offset \<noteq> 0
      then (if offset < 0 then ''+'' else ''-'') @ addLeadingZeros (\<bar>offset\<bar> div 60) 2 @ '':'' @
           addLeadingZeros (\<bar>offset\<bar> mod 60) 2
      else ''Z'')"

definition formatISO :: "int \<Rightarrow> nat \<Rightarrow> string" where
  "formatISO offset ms =
     (let secs = (int ms - offset * 60000) div 1000;
          (y, m, d) = civil_from_days (secs div 86400);
          t = secs mod 86400
      in addLeadingZeros y 4 @ ''-'' @ addLeadingZeros (int m) 2 @ ''-'' @
         addLeadingZeros (int d) 2 @ ''T'' @ addLeadingZeros (t div 3600) 2 @ '':'' @
         addLeadingZeros (t mod 3600 div 60) 2 @ '':'' @ addLeadingZeros (t mod 60) 2 @
         tzOffset offset)"

text \<open>
  What the statements about \<^verbatim>\<open>formatISO\<close> are written with: the local time in whole
  seconds and its year, the days of an era before a year and the days of a year before a
  month, and the text of the six fields.
\<close>

definition local_seconds :: "int \<Rightarrow> nat \<Rightarrow> int" where
  "local_seconds offset ms = (int ms - offset * 60000) div 1000"





definition model_create :: "node list \<Rightarrow> world \<Rightarrow> world" where
  "model_create ns w = w\<lparr> creates := creates w @ [ns] \<rparr>"

definition model_delete :: "string \<Rightarrow> world \<Rightarrow> world" where
  "model_delete i w = w\<lparr> deletes := deletes w @ [i] \<rparr>"

definition cache_set :: "string \<Rightarrow> string \<Rightarrow> world \<Rightarrow> world" where
  "cache_set k v w = w\<lparr> cache := (cache w)(k \<mapsto> v), cache_ops := cache_ops w @ [CacheSet k v] \<rparr>"

text \<open>
  \<^verbatim>\<open>cache.get\<close>: a key that is absent reads as \<^verbatim>\<open>undefined\<close>, which the default
  parameter of \<^verbatim>\<open>syncArticles\<close> (line 7) turns into \<^verbatim>\<open>null\<close>; both are \<open>None\<close>.
\<close>

definition cache_get :: "string \<Rightarrow> world \<Rightarrow> string option \<times> world" where
  "cache_get k w = (cache w k, w\<lparr> cache_ops := cache_ops w @ [CacheGet k] \<rparr>)"

text \<open>\<^verbatim>\<open>syncArticles\<close>, lines 7-179. An exception of the fetcher is not caught.\<close>

definition syncArticles ::
  "server \<Rightarrow> string \<Rightarrow> string option \<Rightarrow> world \<Rightarrow> ((error + unit) \<times> world) option"
where
  "syncArticles srv apiToken updatedGte w =
     (case fetchArticles srv apiToken updatedGte 0 allArticles_init w of
        None \<Rightarrow> None
      | Some (Inl e, w1) \<Rightarrow> Some (Inl e, w1)
      | Some (Inr allArticles, w1) \<Rightarrow>
          (let w2 = model_create (map article_to_node (items allArticles)) w1;
               w3 = cache_set ''lastSync'' (formatISO (timezoneOffset w2) (now w2)) w2
           in Some (Inr (), w3)))"

text \<open>The two event handlers, lines 196-206.\<close>

record webhookBody =
  event :: string
  payload_id :: string

definition createAllNodes :: "server \<Rightarrow> string \<Rightarrow> world \<Rightarrow> ((error + unit) \<times> world) option" where
  "createAllNodes srv apiToken w = syncArticles srv apiToken None w"

definition updateNodes ::
  "server \<Rightarrow> string \<Rightarrow> webhookBody \<Rightarrow> world \<Rightarrow> ((error + unit) \<times> world) option"
where
  "updateNodes srv apiToken body w =
     (if event body = ''content_item.deleted''
      then Some (Inr (), model_delete (payload_id body) w)
      else (let (lastSync, w1) = cache_get ''lastSync'' w
            in syncArticles srv apiToken lastSync w1))"

section \<open>A run observed after finitely many calls\<close>




section \<open>The calls of one fetch\<close>

text \<open>
  \<open>fetch_reaches srv apiToken updatedGte skip a\<close>: a run that starts at line 142 comes to
  call \<^verbatim>\<open>fetchArticles(skip)\<close> with the accumulator holding \<open>a\<close>. The first call is the
  one of line 142; a further call is the one of line 138, made after a page of articles
  that leaves the list shorter than the recorded total.
\<close>

inductive fetch_reaches :: "server \<Rightarrow> string \<Rightarrow> string option \<Rightarrow> nat \<Rightarrow> articles \<Rightarrow> bool"
  for srv :: server and apiToken :: string and updatedGte :: "string option"
where
  reach_first: "fetch_reaches srv apiToken updatedGte 0 allArticles_init"
| reach_next:
    "fetch_reaches srv apiToken updatedGte skip a \<Longrightarrow>
     srv (mk_request apiToken skip updatedGte) = Data page_items page_total \<Longrightarrow>
     total (add_page a page_items page_total) > length (items (add_page a page_items page_total)) \<Longrightarrow>
     fetch_reaches srv apiToken updatedGte (skip + 100) (add_page a page_items page_total)"

code_pred fetch_reaches .

section \<open>Example inputs\<close>

definition asset_a :: asset where
  "asset_a = \<lparr> asset_id = ''1'', asset_type = ''Photo'', asset_url = ''a'' \<rparr>"

definition asset_b :: asset where
  "asset_b = \<lparr> asset_id = ''2'', asset_type = ''Photo'', asset_url = ''b'' \<rparr>"

definition article0 :: article where
  "article0 =
     \<lparr> article_changed_on = ''2024-01-01T00:00:00Z'', article_id = ''abc'',
       article_slug = ''my-post'', article_authors = [], article_categories = [],
       article_content = [], article_title = ''Hello'' \<rparr>"

text \<open>A host in UTC that has done nothing yet, its clock at 2024-01-01T00:00:00.000Z.\<close>

definition world0 :: world where
  "world0 =
     \<lparr> requests = [], creates = [], deletes = [], cache = Map.empty, cache_ops = [],
       now = 1704067200000, timezoneOffset = 0 \<rparr>"

text \<open>An endpoint that serves a fixed list of articles in pages of 100.\<close>

definition srv_paged :: "article list \<Rightarrow> server" where
  "srv_paged arts = (\<lambda>r. Data (take 100 (drop (req_skip r) arts)) (length arts))"

text \<open>An endpoint with nothing to report.\<close>

definition srv_empty :: server where
  "srv_empty = (\<lambda>r. Data [] 0)"

definition error_located :: gql_error where
  "error_located =
     \<lparr> err_locations = [\<lparr> loc_column = 3, loc_line = 12 \<rparr>], err_message = ''bad'' \<rparr>"

definition error_two_locations :: gql_error where
  "error_two_locations =
     \<lparr> err_locations = [\<lparr> loc_column = 1, loc_line = 2 \<rparr>, \<lparr> loc_column = 7, loc_line = 8 \<rparr>],
       err_message = ''worse'' \<rparr>"

definition error_unlocated :: gql_error where
  "error_unlocated = \<lparr> err_locations = [], err_message = ''boom'' \<rparr>"

definition srv_errors :: "gql_error list \<Rightarrow> server" where
  "srv_errors es = (\<lambda>r. Errors es)"

text \<open>An endpoint that serves the first page of 150 articles and then reports an error.\<close>

definition srv_fails_second :: server where
  "srv_fails_second =
     (\<lambda>r. if req_skip r = 0 then Data (replicate 100 article0) 150 else Errors [error_located])"

definition body_deleted :: webhookBody where
  "body_deleted = \<lparr> event = ''content_item.deleted'', payload_id = ''x'' \<rparr>"

definition body_changed :: webhookBody where
  "body_changed = \<lparr> event = ''content_item.changed'', payload_id = ''x'' \<rparr>"






section \<open>Evaluation lemmas\<close>

lemma toLowerCase_JS: "toLowerCase ''JS'' = ''js''"
  by code_simp

lemma toLowerCase_TS: "toLowerCase ''TS'' = ''ts''"
  by code_simp

lemma toLowerCase_RB: "toLowerCase ''RB'' = ''rb''"
  by code_simp

lemma toLowerCase_language_text:
  "toLowerCase (language_text l) = (case l of JS \<Rightarrow> ''js'' | TS \<Rightarrow> ''ts'' | RB \<Rightarrow> ''rb'')"
  by (cases l) (simp_all add: toLowerCase_JS toLowerCase_TS toLowerCase_RB)

lemma show_nat_small: "n < 10 \<Longrightarrow> show_nat n = [''0123456789'' ! n]"
  by (simp add: show_nat.simps)

lemma show_nat_big:
  "\<not> n < 10 \<Longrightarrow> show_nat n = show_nat (n div 10) @ [''0123456789'' ! (n mod 10)]"
  by (subst show_nat.simps) simp

lemma foldl_append_concat: "foldl (\<lambda>acc x. acc @ f x) s xs = s @ concat (map f xs)"
  by (induction xs arbitrary: s) simp_all

lemma assets_body_concat:
  \<open>assets_body its = concat (map (\<lambda>i. ''<img href="'' @ asset_url i @ ''"/>'') its)\<close>
  unfolding assets_body_def by (simp add: foldl_append_concat)

text \<open>One call of \<^verbatim>\<open>fetchArticles\<close>, by the response it receives.\<close>

lemma fetchArticles_Data:
  "srv (mk_request apiToken skip updatedGte) = Data page_items page_total \<Longrightarrow>
   fetchArticles srv apiToken updatedGte skip a w =
     (if total (add_page a page_items page_total) > length (items (add_page a page_items page_total))
      then fetchArticles srv apiToken updatedGte (skip + 100) (add_page a page_items page_total)
             (send (mk_request apiToken skip updatedGte) w)
      else Some (Inr (add_page a page_items page_total), send (mk_request apiToken skip updatedGte) w))"
  by (subst fetchArticles.simps) (simp add: Let_def)

lemma fetchArticles_Errors:
  "srv (mk_request apiToken skip updatedGte) = Errors es \<Longrightarrow>
   fetchArticles srv apiToken updatedGte skip a w =
     Some (Inl (case errors_message es of Inl e \<Rightarrow> e | Inr msg \<Rightarrow> Error msg),
           send (mk_request apiToken skip updatedGte) w)"
  by (subst fetchArticles.simps) (simp add: Let_def split: sum.splits)

section \<open>The Content Flattener\<close>

text \<open>
  C1, as the code has it. The body of \<open>[asset-group{urls:[a,b]}, code{lang:"JS",code:"x"},
  text{html:"<p>y</p>"}]\<close> is the two \<^verbatim>\<open><img>\<close> tags followed by the \<^verbatim>\<open><pre>\<close> wrapper
  and the HTML: the asset group replaces what was accumulated before it, and the blocks
  after it append to its output. In general, a list that ends with an asset group has the
  body of that group alone; a list that ends with a code block has the body of the blocks
  before it followed by the wrapper with the language in lower case; a list that ends with
  a rich-text block has the body of the blocks before it followed by the HTML verbatim.
\<close>

theorem flatten_assets_code_text:
  \<open>flatten_content [Assets [a, b], CodeBlock i ''x'' JS, Text j ''<p>y</p>''] =
     ''<img href="'' @ asset_url a @ ''"/><img href="'' @ asset_url b @
     ''"/><pre lang=js><code>x</code></pre><p>y</p>''
   \<and> flatten_content (cs @ [Assets its]) = assets_body its
   \<and> flatten_content (cs @ [CodeBlock i code lang]) =
       flatten_content cs @ ''<pre lang='' @
       (case lang of JS \<Rightarrow> ''js'' | TS \<Rightarrow> ''ts'' | RB \<Rightarrow> ''rb'') @ ''><code>'' @
       code @ ''</code></pre>''
   \<and> flatten_content (cs @ [Text j html]) = flatten_content cs @ html\<close>
  by (simp add: flatten_content_def assets_body_concat toLowerCase_JS toLowerCase_language_text)

text \<open>
  C1 as it is written fails: with the asset URLs \<open>a\<close> and \<open>b\<close> the body is not
  \<^verbatim>\<open><pre lang=js><code>x</code></pre><p>y</p>\<close>, since it starts with the two images.
\<close>

theorem flatten_assets_code_text_counterexample:
  \<open>flatten_content [Assets [asset_a, asset_b], CodeBlock ''3'' ''x'' JS, Text ''4'' ''<p>y</p>'']
     \<noteq> ''<pre lang=js><code>x</code></pre><p>y</p>''\<close>
  by (simp add: flatten_content_def assets_body_concat toLowerCase_JS asset_a_def asset_b_def)

text \<open>
  C8. A list holding one asset group with the single URL \<open>a\<close> flattens to
  \<^verbatim>\<open><img href="a"/>\<close>; a lone asset group flattens to one tag per asset, in order.
\<close>

theorem flatten_lone_assets:
  \<open>flatten_content [Assets [a]] = ''<img href="'' @ asset_url a @ ''"/>''
   \<and> flatten_content [Assets its] =
       concat (map (\<lambda>i. ''<img href="'' @ asset_url i @ ''"/>'') its)\<close>
  by (simp add: flatten_content_def assets_body_concat)

section \<open>The Article Transformer\<close>

text \<open>
  C7. The article with id \<open>abc\<close>, slug \<open>my-post\<close>, title \<open>Hello\<close>, no authors, no
  categories and timestamp \<open>2024-01-01T00:00:00Z\<close> becomes exactly one node, with the same
  id, slug, title and timestamp and with empty author and category lists, whatever its
  content blocks are.
\<close>

theorem transform_roundtrip:
  "map article_to_node
     [\<lparr> article_changed_on = ''2024-01-01T00:00:00Z'', article_id = ''abc'',
        article_slug = ''my-post'', article_authors = [], article_categories = [],
        article_content = cs, article_title = ''Hello'' \<rparr>] =
   [\<lparr> node_authors = [], node_body = flatten_content cs, node_categories = [],
      node_id = ''abc'', node_slug = ''my-post'', node_title = ''Hello'',
      node_updated = ''2024-01-01T00:00:00Z'' \<rparr>]"
  by (simp add: article_to_node_def)

section \<open>The deletion path\<close>

text \<open>
  C6. On a webhook body whose event is \<open>content_item.deleted\<close> the handler returns
  normally, has made one more call to \<^verbatim>\<open>model.delete\<close>, with the payload's id, and has
  sent no request.
\<close>

theorem delete_event_one_delete_no_fetch:
  "event body = ''content_item.deleted'' \<Longrightarrow>
   \<exists>w'. updateNodes srv apiToken body w = Some (Inr (), w')
      \<and> deletes w' = deletes w @ [payload_id body]
      \<and> requests w' = requests w"
  by (simp add: updateNodes_def model_delete_def)

theorem delete_event_one_delete_no_fetch_witness:
  "event body_deleted = ''content_item.deleted'' \<and>
   (\<exists>w'. updateNodes srv_empty ''token'' body_deleted world0 = Some (Inr (), w')
      \<and> deletes w' = [''x''] \<and> requests w' = [])"
  using delete_event_one_delete_no_fetch [of body_deleted srv_empty "''token''" world0]
  by (simp add: body_deleted_def world0_def)

text \<open>
  C10. On a webhook body whose event is \<open>content_item.deleted\<close> the handler makes no call
  to the cache, neither a read nor a write, and the cache is as it was.
\<close>

theorem delete_event_leaves_cache:
  "event body = ''content_item.deleted'' \<Longrightarrow>
   \<exists>w'. updateNodes srv apiToken body w = Some (Inr (), w')
      \<and> cache_ops w' = cache_ops w
      \<and> cache w' = cache w"
  by (simp add: updateNodes_def model_delete_def)

theorem delete_event_leaves_cache_witness:
  "event body_deleted = ''content_item.deleted'' \<and>
   (\<exists>w'. updateNodes srv_empty ''token'' body_deleted
            (world0\<lparr> cache := [''lastSync'' \<mapsto> ''2024-01-01T00:00:00Z''] \<rparr>) = Some (Inr (), w')
      \<and> cache_ops w' = [] \<and> cache w' ''lastSync'' = Some ''2024-01-01T00:00:00Z'')"
  using delete_event_leaves_cache [of body_deleted srv_empty "''token''"
      "world0\<lparr> cache := [''lastSync'' \<mapsto> ''2024-01-01T00:00:00Z''] \<rparr>"]
  by (auto simp: body_deleted_def world0_def)

section \<open>The error message of the fetcher\<close>

lemma errors_reduce_located:
  "\<forall>e\<in>set es. err_locations e \<noteq> [] \<Longrightarrow>
   errors_reduce s i es =
     Inr (s @ concat (map (\<lambda>(n, e). ''GraphQlError '' @ show_nat n @ '': '' @ err_message e @ '' at '' @
                            show_int (loc_line (hd (err_locations e))) @ '':'' @
                            show_int (loc_column (hd (err_locations e))) @ ''\<newline>'')
                      (enumerate (Suc i) es)))"
proof (induction es arbitrary: s i)
  case Nil
  show ?case by simp
next
  case (Cons e es)
  from Cons.prems obtain l ls where l: "err_locations e = l # ls"
    by (cases "err_locations e") auto
  from Cons.prems have rest: "\<forall>e\<in>set es. err_locations e \<noteq> []" by simp
  show ?case by (simp add: l Cons.IH [OF rest])
qed

lemma errors_reduce_unlocated:
  "\<exists>e\<in>set es. err_locations e = [] \<Longrightarrow> errors_reduce s i es = Inl TypeError"
proof (induction es arbitrary: s i)
  case Nil
  then show ?case by simp
next
  case (Cons e es)
  show ?case
  proof (cases "err_locations e")
    case Nil
    then show ?thesis by simp
  next
    case (Cons l ls)
    with Cons.prems have "\<exists>e\<in>set es. err_locations e = []" by auto
    with Cons.IH Cons show ?thesis by simp
  qed
qed

lemma errors_reduce_first_location:
  "errors_reduce s i (map (\<lambda>e. e\<lparr> err_locations := take 1 (err_locations e) \<rparr>) es) = errors_reduce s i es"
proof (induction es arbitrary: s i)
  case Nil
  show ?case by simp
next
  case (Cons e es)
  show ?case using Cons.IH by (cases "err_locations e") simp_all
qed

text \<open>
  C9. The message is built exactly when every error of the response has at least one
  location; when some error has none, building it fails with a \<^verbatim>\<open>TypeError\<close>. Only the
  first location of an error is read: a response whose errors keep only their first
  location gives the same outcome, so further locations do not appear in the message.
\<close>

theorem errors_message_first_location_only:
  "((\<exists>msg. errors_message es = Inr msg) \<longleftrightarrow> (\<forall>e\<in>set es. err_locations e \<noteq> []))
   \<and> ((\<exists>e\<in>set es. err_locations e = []) \<longrightarrow> errors_message es = Inl TypeError)
   \<and> errors_message (map (\<lambda>e. e\<lparr> err_locations := take 1 (err_locations e) \<rparr>) es) = errors_message es"
proof (intro conjI)
  show "(\<exists>msg. errors_message es = Inr msg) \<longleftrightarrow> (\<forall>e\<in>set es. err_locations e \<noteq> [])"
  proof
    assume ok: "\<exists>msg. errors_message es = Inr msg"
    show "\<forall>e\<in>set es. err_locations e \<noteq> []"
    proof (rule ccontr)
      assume "\<not> (\<forall>e\<in>set es. err_locations e \<noteq> [])"
      then have "\<exists>e\<in>set es. err_locations e = []" by simp
      then have "errors_message es = Inl TypeError"
        by (simp add: errors_message_def errors_reduce_unlocated)
      with ok show False by simp
    qed
  next
    assume "\<forall>e\<in>set es. err_locations e \<noteq> []"
    then show "\<exists>msg. errors_message es = Inr msg"
      by (simp add: errors_message_def errors_reduce_located)
  qed
  show "(\<exists>e\<in>set es. err_locations e = []) \<longrightarrow> errors_message es = Inl TypeError"
    by (simp add: errors_message_def errors_reduce_unlocated)
  show "errors_message (map (\<lambda>e. e\<lparr> err_locations := take 1 (err_locations e) \<rparr>) es) = errors_message es"
    by (simp only: errors_message_def length_map errors_reduce_first_location)
qed

theorem errors_message_first_location_only_witness:
  "err_locations error_located \<noteq> [] \<and> err_locations error_two_locations \<noteq> []
   \<and> errors_message [error_located, error_two_locations] =
       Inr ''Received 2 error(s) from GraphQL:\<newline>GraphQlError 1: bad at 12:3\<newline>GraphQlError 2: worse at 2:1\<newline>''
   \<and> errors_message (map (\<lambda>e. e\<lparr> err_locations := take 1 (err_locations e) \<rparr>)
         [error_located, error_two_locations]) = errors_message [error_located, error_two_locations]
   \<and> err_locations error_unlocated = []
   \<and> errors_message [error_located, error_unlocated] = Inl TypeError"
  using errors_message_first_location_only [of "[error_located, error_two_locations]"]
    errors_message_first_location_only [of "[error_located, error_unlocated]"]
  by (simp add: errors_message_def error_located_def error_two_locations_def error_unlocated_def
      show_int_def show_nat_small show_nat_big)

text \<open>
  C3, as the code has it. When the response to a request is a list of \<open>k\<close> errors, each
  with at least one location, the fetcher throws an \<^verbatim>\<open>Error\<close> whose message is the line
  \<^verbatim>\<open>Received k error(s) from GraphQL:\<close> followed by exactly \<open>k\<close> entries, numbered 1 to
  \<open>k\<close> in the order of the list, each of the form
  \<^verbatim>\<open>GraphQlError n: message at line:column\<close> with the message of that error and the line
  and column of its first location. This holds at every page and for every \<open>k\<close>.
\<close>

theorem graphql_errors_thrown:
  assumes "srv (mk_request apiToken skip updatedGte) = Errors es"
    and "\<forall>e\<in>set es. err_locations e \<noteq> []"
  shows "fetchArticles srv apiToken updatedGte skip allArticles w =
     Some (Inl (Error (''Received '' @ show_nat (length es) @ '' error(s) from GraphQL:\<newline>'' @
              concat (map (\<lambda>(n, e). ''GraphQlError '' @ show_nat n @ '': '' @ err_message e @ '' at '' @
                                     show_int (loc_line (hd (err_locations e))) @ '':'' @
                                     show_int (loc_column (hd (err_locations e))) @ ''\<newline>'')
                       (zip [1..<Suc (length es)] es)))),
           send (mk_request apiToken skip updatedGte) w)"
  using assms
  by (subst fetchArticles.simps)
     (simp add: errors_message_def errors_reduce_located enumerate_eq_zip)

theorem graphql_errors_thrown_witness:
  "srv_errors [error_located, error_two_locations] (mk_request ''token'' 0 None) =
     Errors [error_located, error_two_locations]
   \<and> err_locations error_located \<noteq> [] \<and> err_locations error_two_locations \<noteq> []
   \<and> fetchArticles (srv_errors [error_located, error_two_locations]) ''token'' None 0
       allArticles_init world0 =
     Some (Inl (Error ''Received 2 error(s) from GraphQL:\<newline>GraphQlError 1: bad at 12:3\<newline>GraphQlError 2: worse at 2:1\<newline>''),
           send (mk_request ''token'' 0 None) world0)"
  using graphql_errors_thrown [of "srv_errors [error_located, error_two_locations]" "''token''" 0 None
      "[error_located, error_two_locations]" allArticles_init world0]
  by (simp add: srv_errors_def error_located_def error_two_locations_def
      show_int_def show_nat_small show_nat_big)

text \<open>
  C3 as it is written fails for an error that carries no location: the fetcher then throws
  a \<^verbatim>\<open>TypeError\<close>, not an error whose message lists the entries.
\<close>

theorem graphql_errors_thrown_counterexample:
  "fetchArticles (srv_errors [error_unlocated]) ''token'' None 0 allArticles_init world0 =
     Some (Inl TypeError, send (mk_request ''token'' 0 None) world0)"
  by (subst fetchArticles.simps)
     (simp add: srv_errors_def error_unlocated_def errors_message_def)

section \<open>Pagination\<close>

lemma fetch_pages_from:
  assumes srv: "\<forall>s. srv (mk_request apiToken s updatedGte) = Data (take 100 (drop s arts)) (length arts)"
  shows "k = 0 \<or> 100 * k < length arts \<Longrightarrow>
     fetchArticles srv apiToken updatedGte (100 * k)
       \<lparr> items = take (100 * k) arts, total = (if k = 0 then 0 else length arts) \<rparr> w =
     Some (Inr \<lparr> items = arts, total = length arts \<rparr>,
           w\<lparr> requests := requests w @
                map (\<lambda>j. mk_request apiToken (100 * j) updatedGte)
                  [k..<max 1 ((length arts + 99) div 100)] \<rparr>)"
proof (induction "length arts - 100 * k" arbitrary: k w rule: less_induct)
  case less
  let ?N = "length arts"
  let ?M = "max 1 ((?N + 99) div 100)"
  let ?req = "mk_request apiToken (100 * k) updatedGte"
  let ?a = "\<lparr> items = take (100 * k) arts, total = (if k = 0 then 0 else ?N) \<rparr>"
  let ?a' = "\<lparr> items = take (100 * Suc k) arts, total = ?N \<rparr>"
  have page: "srv ?req = Data (take 100 (drop (100 * k) arts)) ?N"
    using srv by simp
  have suc: "100 * Suc k = 100 * k + 100" by simp
  then have "take (100 * k) arts @ take 100 (drop (100 * k) arts) = take (100 * Suc k) arts"
    by (simp only: take_add)
  then have added: "add_page ?a (take 100 (drop (100 * k) arts)) ?N = ?a'"
    using less.prems by (auto simp: add_page_def Let_def)
  have unfolded: "fetchArticles srv apiToken updatedGte (100 * k) ?a w =
     (if total ?a' > length (items ?a')
      then fetchArticles srv apiToken updatedGte (100 * Suc k) ?a' (send ?req w)
      else Some (Inr ?a', send ?req w))"
    by (simp only: fetchArticles_Data [where srv = srv and apiToken = apiToken and skip = "100 * k"
          and updatedGte = updatedGte, OF page] added suc)
  show ?case
  proof (cases "100 * Suc k < ?N")
    case True
    then have step: "fetchArticles srv apiToken updatedGte (100 * k) ?a w =
        fetchArticles srv apiToken updatedGte (100 * Suc k) ?a' (send ?req w)"
      by (simp only: unfolded) simp
    have "?N - 100 * Suc k < ?N - 100 * k" using True by simp
    from less.hyps [OF this, of "send ?req w"] True
    have rest: "fetchArticles srv apiToken updatedGte (100 * Suc k) ?a' (send ?req w) =
        Some (Inr \<lparr> items = arts, total = ?N \<rparr>,
           (send ?req w)\<lparr> requests := requests (send ?req w) @
                map (\<lambda>j. mk_request apiToken (100 * j) updatedGte) [Suc k..<?M] \<rparr>)"
      by simp
    have "k < ?M" using True by simp
    then have "[k..<?M] = k # [Suc k..<?M]"
      by (rule upt_conv_Cons)
    then show ?thesis
      by (simp only: step rest) (simp add: send_def)
  next
    case False
    then have all: "take (100 * Suc k) arts = arts" by simp
    have "?M = Suc k" using False less.prems by auto
    then have one: "[k..<?M] = [k]" by simp
    show ?thesis
      by (simp only: unfolded all one) (simp add: send_def)
  qed
qed

text \<open>
  C2, as the code has it. Against an endpoint that serves a list of \<open>N\<close> articles in pages
  of 100 and reports the total \<open>N\<close> on every page, the fetcher returns with the whole list
  accumulated (its length is \<open>N\<close>, the recorded total) after exactly
  \<open>max 1 (ceil (N / 100))\<close> requests, at the offsets 0, 100, 200, ... in this order: the
  first request is sent before any total is known, so there is one request when \<open>N = 0\<close>.
\<close>

theorem fetch_all_pages:
  assumes "\<forall>s. srv (mk_request apiToken s updatedGte) = Data (take 100 (drop s arts)) (length arts)"
  shows "fetchArticles srv apiToken updatedGte 0 allArticles_init w =
     Some (Inr \<lparr> items = arts, total = length arts \<rparr>,
           w\<lparr> requests := requests w @
                map (\<lambda>k. mk_request apiToken (100 * k) updatedGte)
                  [0..<max 1 ((length arts + 99) div 100)] \<rparr>)"
  using fetch_pages_from [OF assms, of 0 w] by (simp add: allArticles_init_def)

theorem fetch_all_pages_witness:
  "(\<forall>s. srv_paged (replicate 150 article0) (mk_request ''token'' s None) =
        Data (take 100 (drop s (replicate 150 article0))) (length (replicate 150 article0)))
   \<and> fetchArticles (srv_paged (replicate 150 article0)) ''token'' None 0 allArticles_init world0 =
       Some (Inr \<lparr> items = replicate 150 article0, total = 150 \<rparr>,
             world0\<lparr> requests := [mk_request ''token'' 0 None, mk_request ''token'' 100 None] \<rparr>)"
proof -
  have "[0..<max 1 ((length (replicate 150 article0) + 99) div 100)] = [0, Suc 0]"
    by (simp add: upt_rec)
  then show ?thesis
    using fetch_all_pages [of "srv_paged (replicate 150 article0)" "''token''" None
        "replicate 150 article0" world0]
    by (simp add: srv_paged_def mk_request_def world0_def)
qed

text \<open>
  C2 as it is written fails for \<open>N = 0\<close>: the fetcher sends one request, and
  \<open>ceil (0 / 100)\<close> is 0.
\<close>

theorem fetch_all_pages_counterexample:
  "fetchArticles srv_empty ''token'' None 0 allArticles_init world0 =
     Some (Inr \<lparr> items = [], total = 0 \<rparr>, send (mk_request ''token'' 0 None) world0)
   \<and> length (requests (send (mk_request ''token'' 0 None) world0)) - length (requests world0)
       \<noteq> (0 + 99) div 100"
  by (subst fetchArticles.simps)
     (simp add: srv_empty_def add_page_def allArticles_init_def send_def world0_def Let_def)

section \<open>A failing fetch aborts the sync\<close>

lemma fetch_reaches_run:
  assumes "fetch_reaches srv apiToken updatedGte skip a"
  shows "\<exists>rs. fetchArticles srv apiToken updatedGte 0 allArticles_init w =
              fetchArticles srv apiToken updatedGte skip a (w\<lparr> requests := requests w @ rs \<rparr>)"
  using assms
proof (induction rule: fetch_reaches.induct)
  case reach_first
  have "w\<lparr> requests := requests w @ [] \<rparr> = w" by simp
  then show ?case by metis
next
  case (reach_next skip a page_items page_total)
  then obtain rs where rs: "fetchArticles srv apiToken updatedGte 0 allArticles_init w =
      fetchArticles srv apiToken updatedGte skip a (w\<lparr> requests := requests w @ rs \<rparr>)"
    by blast
  have "fetchArticles srv apiToken updatedGte skip a (w\<lparr> requests := requests w @ rs \<rparr>) =
        fetchArticles srv apiToken updatedGte (skip + 100) (add_page a page_items page_total)
          (w\<lparr> requests := requests w @ (rs @ [mk_request apiToken skip updatedGte]) \<rparr>)"
    using reach_next(2,3) by (subst fetchArticles.simps) (simp add: send_def Let_def)
  with rs show ?case by metis
qed

text \<open>
  C4. When a sync comes to request a page and the response to that request is a list of
  errors, the sync ends with an exception: no call to \<^verbatim>\<open>model.create\<close> has been made
  and the cache holds what it held before. This is so for \<^verbatim>\<open>syncArticles\<close> with any
  lower bound, for the full sync of \<^verbatim>\<open>createAllNodes\<close> and for the incremental sync of
  \<^verbatim>\<open>updateNodes\<close>.
\<close>

theorem sync_error_no_persistence:
  assumes "fetch_reaches srv apiToken updatedGte skip a"
    and "srv (mk_request apiToken skip updatedGte) = Errors es"
  shows "(\<exists>e w'. syncArticles srv apiToken updatedGte w = Some (Inl e, w')
            \<and> creates w' = creates w \<and> cache w' = cache w)
     \<and> (updatedGte = None \<longrightarrow>
          (\<exists>e w'. createAllNodes srv apiToken w = Some (Inl e, w')
             \<and> creates w' = creates w \<and> cache w' = cache w))
     \<and> (updatedGte = cache w ''lastSync'' \<and> event body \<noteq> ''content_item.deleted'' \<longrightarrow>
          (\<exists>e w'. updateNodes srv apiToken body w = Some (Inl e, w')
             \<and> creates w' = creates w \<and> cache w' = cache w))"
proof -
  have run: "\<exists>e w'. syncArticles srv apiToken updatedGte v = Some (Inl e, w')
      \<and> creates w' = creates v \<and> cache w' = cache v" for v
  proof -
    from fetch_reaches_run [OF assms(1), of v] obtain rs where
      "fetchArticles srv apiToken updatedGte 0 allArticles_init v =
         fetchArticles srv apiToken updatedGte skip a (v\<lparr> requests := requests v @ rs \<rparr>)"
      by blast
    then have "fetchArticles srv apiToken updatedGte 0 allArticles_init v =
         Some (Inl (case errors_message es of Inl e \<Rightarrow> e | Inr msg \<Rightarrow> Error msg),
               send (mk_request apiToken skip updatedGte) (v\<lparr> requests := requests v @ rs \<rparr>))"
      by (simp only: fetchArticles_Errors [where srv = srv, OF assms(2)])
    then show ?thesis
      by (simp add: syncArticles_def send_def)
  qed
  have full: "updatedGte = None \<longrightarrow>
      (\<exists>e w'. createAllNodes srv apiToken w = Some (Inl e, w')
         \<and> creates w' = creates w \<and> cache w' = cache w)"
    using run [of w] by (auto simp: createAllNodes_def)
  have incremental: "updatedGte = cache w ''lastSync'' \<and> event body \<noteq> ''content_item.deleted'' \<longrightarrow>
      (\<exists>e w'. updateNodes srv apiToken body w = Some (Inl e, w')
         \<and> creates w' = creates w \<and> cache w' = cache w)"
    using run [of "w\<lparr> cache_ops := cache_ops w @ [CacheGet ''lastSync''] \<rparr>"]
    by (auto simp: updateNodes_def cache_get_def Let_def)
  from run [of w] full incremental show ?thesis by blast
qed

theorem sync_error_no_persistence_witness:
  "fetch_reaches srv_fails_second ''token'' None 100 \<lparr> items = replicate 100 article0, total = 150 \<rparr>
   \<and> srv_fails_second (mk_request ''token'' 100 None) = Errors [error_located]
   \<and> cache world0 ''lastSync'' = None
   \<and> event body_changed \<noteq> ''content_item.deleted''
   \<and> (\<exists>e w'. syncArticles srv_fails_second ''token'' None world0 = Some (Inl e, w')
           \<and> creates w' = [] \<and> cache w' = Map.empty)
   \<and> (\<exists>e w'. createAllNodes srv_fails_second ''token'' world0 = Some (Inl e, w')
           \<and> creates w' = [] \<and> cache w' = Map.empty)
   \<and> (\<exists>e w'. updateNodes srv_fails_second ''token'' body_changed world0 = Some (Inl e, w')
           \<and> creates w' = [] \<and> cache w' = Map.empty)"
proof -
  have page: "srv_fails_second (mk_request ''token'' 0 None) = Data (replicate 100 article0) 150"
    by (simp add: srv_fails_second_def mk_request_def)
  have added: "add_page allArticles_init (replicate 100 article0) 150 =
      \<lparr> items = replicate 100 article0, total = 150 \<rparr>"
    by (simp add: add_page_def allArticles_init_def)
  have "fetch_reaches srv_fails_second ''token'' None (0 + 100)
      (add_page allArticles_init (replicate 100 article0) 150)"
    by (rule reach_next [where srv = srv_fails_second, OF reach_first page]) (simp add: added)
  then have reach: "fetch_reaches srv_fails_second ''token'' None 100
      \<lparr> items = replicate 100 article0, total = 150 \<rparr>"
    by (simp add: added)
  have err: "srv_fails_second (mk_request ''token'' 100 None) = Errors [error_located]"
    by (simp add: srv_fails_second_def mk_request_def)
  have empty: "cache world0 ''lastSync'' = None" "creates world0 = []" "cache world0 = Map.empty"
    by (simp_all add: world0_def)
  have ev: "event body_changed \<noteq> ''content_item.deleted''"
    by (simp add: body_changed_def)
  from sync_error_no_persistence [OF reach err, of world0 body_changed] reach err empty ev
  show ?thesis by simp
qed

section \<open>The calendar of the cursor and the order of its text\<close>









lemma year_length_pos: "0 < year_length y"
  by (simp add: year_length_def)





























lemma local_seconds_eq: "local_seconds offset ms = int (ms div 1000) - offset * 60"
proof -
  have "int ms - offset * 60000 = int ms + (- (offset * 60)) * 1000" by simp
  then have "(int ms - offset * 60000) div 1000 = int ms div 1000 + - (offset * 60)"
    by (simp only: div_mult_self3)
  then show ?thesis by (simp add: local_seconds_def zdiv_int)
qed








lemma year_from_8706: "year_from 0 8706 = (23, 306)"
  by (simp add: year_from.simps year_length_def leap_year_def)

lemma month_from_306: "month_from 0 306 = (10, 0)"
  by (simp add: month_from.simps month_length_def)

lemma civil_from_days_19723: "civil_from_days 19723 = (2024, 1, 1)"
  by (simp add: civil_from_days_def year_from_8706 month_from_306)




section \<open>The sync cursor\<close>












lemma addLeadingZeros_2: "n < 10 \<Longrightarrow> 0 \<le> n \<Longrightarrow> addLeadingZeros n 2 = [CHR ''0'', ''0123456789'' ! nat n]"
  by (simp add: addLeadingZeros_def show_nat_small)

lemma formatISO_local:
  "formatISO offset ms =
     (case civil_from_days (local_seconds offset ms div 86400) of
        (y, m, d) \<Rightarrow>
          addLeadingZeros y 4 @ ''-'' @ addLeadingZeros (int m) 2 @ ''-'' @
          addLeadingZeros (int d) 2 @ ''T'' @
          addLeadingZeros (local_seconds offset ms mod 86400 div 3600) 2 @ '':'' @
          addLeadingZeros (local_seconds offset ms mod 86400 mod 3600 div 60) 2 @ '':'' @
          addLeadingZeros (local_seconds offset ms mod 86400 mod 60) 2 @ tzOffset offset)"
  by (simp add: formatISO_def local_seconds_def Let_def)



lemma formatISO_ahead_of_utc: "formatISO (- 120) 1704067200000 = ''2024-01-01T02:00:00+02:00''"
proof -
  have s: "local_seconds (- 120) 1704067200000 = 1704074400"
    by (simp add: local_seconds_eq)
  have y: "addLeadingZeros 2024 4 = ''2024''"
    by (simp add: addLeadingZeros_def show_nat_small show_nat_big)
  show ?thesis
    by (simp add: formatISO_local s civil_from_days_19723 y addLeadingZeros_2 tzOffset_def)
qed














end
